theory Spec2Isabelle
  imports Complex_Main "HOL-Library.Log_Nat"
begin

section \<open>The arithmetic types of the target\<close>

text \<open>
  \<^verbatim>\<open>BoundedNumber<T, Min, Max>\<close> is a class template over a storage type and two
  constants whose types are deduced (\<^verbatim>\<open>auto\<close>).  Everything the templates do is decided
  by the types involved and by the conversions of the language between them, so the
  embedding starts with the arithmetic types.  The data model is the one the examples of
  \<^verbatim>\<open>main\<close> are written for: LP64 (\<^verbatim>\<open>int\<close> has 32 bits, \<^verbatim>\<open>long\<close> and \<^verbatim>\<open>long long\<close> 64,
  plain \<^verbatim>\<open>char\<close> is signed, \<^verbatim>\<open>wchar_t\<close> is a signed 32-bit type), two's complement
  integers (C++20), IEEE 754 \<^verbatim>\<open>float\<close> and \<^verbatim>\<open>double\<close>, and the 80-bit extended format for
  \<^verbatim>\<open>long double\<close>.
\<close>

datatype itype =
  t_bool | t_char | t_schar | t_uchar | t_short | t_ushort | t_int | t_uint
  | t_long | t_ulong | t_llong | t_ullong | t_char8 | t_char16 | t_char32 | t_wchar

datatype ftype = t_float | t_double | t_ldouble

text \<open>\<open>NonArithmetic\<close> stands for every type that is neither integral nor floating-point.\<close>

datatype ctype = Integral itype | Floating ftype | NonArithmetic

fun is_signed :: "itype \<Rightarrow> bool" where
  "is_signed t_char = True"
| "is_signed t_schar = True"
| "is_signed t_short = True"
| "is_signed t_int = True"
| "is_signed t_long = True"
| "is_signed t_llong = True"
| "is_signed t_wchar = True"
| "is_signed _ = False"

fun bits :: "itype \<Rightarrow> nat" where
  "bits t_bool = 1"
| "bits t_char = 8"
| "bits t_schar = 8"
| "bits t_uchar = 8"
| "bits t_char8 = 8"
| "bits t_short = 16"
| "bits t_ushort = 16"
| "bits t_char16 = 16"
| "bits t_int = 32"
| "bits t_uint = 32"
| "bits t_char32 = 32"
| "bits t_wchar = 32"
| "bits t_long = 64"
| "bits t_ulong = 64"
| "bits t_llong = 64"
| "bits t_ullong = 64"

text \<open>The least and the greatest value of an integral type.\<close>

definition imin :: "itype \<Rightarrow> int" where
  "imin t = (if is_signed t then - (2 ^ (bits t - 1)) else 0)"

definition imax :: "itype \<Rightarrow> int" where
  "imax t = (if is_signed t then 2 ^ (bits t - 1) - 1 else 2 ^ bits t - 1)"

subsection \<open>Floating-point values\<close>

text \<open>
  A floating-point value is a rational number (the finite values; the two zeros are
  identified, they compare equal), an infinity or a NaN.  A format is given by its
  precision \<open>fprec\<close> (the number of significand bits) and its greatest exponent \<open>femax\<close>.
\<close>

datatype fval = Finite rat | PInf | NInf | NaN

fun fprec :: "ftype \<Rightarrow> nat" where
  "fprec t_float = 24"
| "fprec t_double = 53"
| "fprec t_ldouble = 64"

fun femax :: "ftype \<Rightarrow> int" where
  "femax t_float = 127"
| "femax t_double = 1023"
| "femax t_ldouble = 16383"

definition pow2 :: "int \<Rightarrow> rat" where
  "pow2 k = (if 0 \<le> k then 2 ^ nat k else 1 / 2 ^ nat (- k))"

text \<open>The greatest finite value of a format: \<open>(2^p - 1) * 2^(emax - p + 1)\<close>.\<close>

definition fmax :: "ftype \<Rightarrow> rat" where
  "fmax f = (2 ^ fprec f - 1) * pow2 (femax f - int (fprec f) + 1)"

text \<open>\<open>ilog2 q\<close> is the exponent \<open>e\<close> with \<open>2^e \<le> q < 2^(e+1)\<close>, for a positive \<open>q\<close>.\<close>

definition ilog2 :: "rat \<Rightarrow> int" where
  "ilog2 q =
     (let (a, b) = quotient_of q; k = bitlen a - bitlen b
      in if pow2 k \<le> q then k else k - 1)"

text \<open>The integer nearest to \<open>a / b\<close>, for a positive \<open>b\<close>; of two nearest ones the even one.\<close>

definition round_half_even :: "int \<Rightarrow> int \<Rightarrow> int" where
  "round_half_even a b =
     (let n = a div b; r = a mod b
      in if 2 * r < b then n else if b < 2 * r then n + 1 else if even n then n else n + 1)"

text \<open>
  Rounding a rational to the nearest value of a format, ties to even, with gradual
  underflow: the spacing of the format at \<open>q\<close> is \<open>2^u\<close> with \<open>u = e - p + 1\<close>, where \<open>e\<close> is
  the exponent of \<open>q\<close>, and not less than the least normal exponent \<open>1 - emax\<close>.  The result
  is the multiple of \<open>2^u\<close> nearest to \<open>q\<close>.
\<close>

definition fround :: "ftype \<Rightarrow> rat \<Rightarrow> rat" where
  "fround f q =
     (if q = 0 then 0
      else let (a, b) = quotient_of q;
               e = max (ilog2 \<bar>q\<bar>) (1 - femax f);
               u = e - int (fprec f) + 1
           in of_int (if 0 \<le> u then round_half_even a (b * 2 ^ nat u)
                      else round_half_even (a * 2 ^ nat (- u)) b) * pow2 u)"

fun fless :: "fval \<Rightarrow> fval \<Rightarrow> bool" where
  "fless (Finite a) (Finite b) = (a < b)"
| "fless (Finite a) PInf = True"
| "fless NInf (Finite b) = True"
| "fless NInf PInf = True"
| "fless _ _ = False"

fun fless_eq :: "fval \<Rightarrow> fval \<Rightarrow> bool" where
  "fless_eq (Finite a) (Finite b) = (a \<le> b)"
| "fless_eq (Finite a) PInf = True"
| "fless_eq NInf (Finite b) = True"
| "fless_eq NInf PInf = True"
| "fless_eq PInf PInf = True"
| "fless_eq NInf NInf = True"
| "fless_eq _ _ = False"

subsection \<open>Values and conversions\<close>

text \<open>
  A value carries its type.  For an integral type the payload is the number itself, between
  \<open>imin\<close> and \<open>imax\<close> of the type.
\<close>

datatype cvalue = IV itype int | FV ftype fval

fun type_of :: "cvalue \<Rightarrow> ctype" where
  "type_of (IV t n) = Integral t"
| "type_of (FV f x) = Floating f"

text \<open>
  \<open>IllFormed\<close>: the program is rejected by the compiler (an unsatisfied constraint, no
  viable function).  \<open>UndefinedBehaviour\<close>: the language gives the evaluation no meaning (in
  a constant expression the compiler rejects it, at run time anything may happen).
\<close>

datatype error = IllFormed | UndefinedBehaviour

definition bind :: "error + 'a \<Rightarrow> ('a \<Rightarrow> error + 'b) \<Rightarrow> error + 'b" where
  "bind m f = (case m of Inl e \<Rightarrow> Inl e | Inr x \<Rightarrow> f x)"

text \<open>Conversion to an integral type other than \<^verbatim>\<open>bool\<close> is modulo \<open>2^bits\<close>.\<close>

definition wrap :: "itype \<Rightarrow> int \<Rightarrow> int" where
  "wrap t n =
     (if is_signed t then (n + 2 ^ (bits t - 1)) mod 2 ^ bits t - 2 ^ (bits t - 1)
      else n mod 2 ^ bits t)"

definition truncate_toward_zero :: "rat \<Rightarrow> int" where
  "truncate_toward_zero q = (if 0 \<le> q then \<lfloor>q\<rfloor> else - \<lfloor>- q\<rfloor>)"

text \<open>
  A rational converted to a floating-point format: rounded, unless it lies beyond the
  finite values of the format.
\<close>

definition to_floating :: "ftype \<Rightarrow> rat \<Rightarrow> error + cvalue" where
  "to_floating g q =
     (let r = fround g q
      in if \<bar>r\<bar> \<le> fmax g then Inr (FV g (Finite r)) else Inl UndefinedBehaviour)"

text \<open>
  \<^verbatim>\<open>static_cast<D>(v)\<close>, and the implicit conversions, between arithmetic types:
  \<^item> to \<^verbatim>\<open>bool\<close>: zero becomes \<^verbatim>\<open>false\<close>, everything else \<^verbatim>\<open>true\<close>;
  \<^item> integral to integral: the value modulo \<open>2^bits\<close>;
  \<^item> floating to integral: the fractional part is discarded, and the behaviour is undefined
    when the result does not fit (also for infinities and NaN);
  \<^item> integral to floating: rounded to the format;
  \<^item> floating to floating: nothing when the formats are the same, otherwise rounded to the
    format, undefined when the value is out of its range.
\<close>

fun convert :: "ctype \<Rightarrow> cvalue \<Rightarrow> error + cvalue" where
  "convert (Integral t) (IV s n) =
     Inr (IV t (if t = t_bool then (if n = 0 then 0 else 1) else wrap t n))"
| "convert (Integral t) (FV f x) =
     (if t = t_bool then Inr (IV t_bool (if x = Finite 0 then 0 else 1))
      else case x of
             Finite q \<Rightarrow>
               (if imin t \<le> truncate_toward_zero q \<and> truncate_toward_zero q \<le> imax t
                then Inr (IV t (truncate_toward_zero q))
                else Inl UndefinedBehaviour)
           | _ \<Rightarrow> Inl UndefinedBehaviour)"
| "convert (Floating g) (IV s n) = to_floating g (of_int n)"
| "convert (Floating g) (FV f x) =
     (if f = g then Inr (FV g x)
      else case x of Finite q \<Rightarrow> to_floating g q | _ \<Rightarrow> Inr (FV g x))"
| "convert NonArithmetic v = Inl IllFormed"

subsection \<open>The usual arithmetic conversions\<close>

text \<open>
  The built-in operators \<^verbatim>\<open><\<close>, \<^verbatim>\<open><=\<close> and \<^verbatim>\<open>>=\<close> bring both operands to a common type
  first.  Integral operands are promoted (every type narrower than \<^verbatim>\<open>int\<close> becomes \<^verbatim>\<open>int\<close>,
  \<^verbatim>\<open>char32_t\<close> becomes \<^verbatim>\<open>unsigned int\<close>); then, of two integral types of the same signedness
  the one of greater rank wins; of a signed and an unsigned one the unsigned wins unless
  the signed type has the greater rank, in which case the signed type wins if it holds all
  values of the unsigned one, and its unsigned counterpart otherwise.  A floating-point
  operand wins over an integral one, and the wider floating-point format over the narrower.
\<close>

fun promote :: "itype \<Rightarrow> itype" where
  "promote t_int = t_int"
| "promote t_uint = t_uint"
| "promote t_long = t_long"
| "promote t_ulong = t_ulong"
| "promote t_llong = t_llong"
| "promote t_ullong = t_ullong"
| "promote t_char32 = t_uint"
| "promote _ = t_int"

fun rank :: "itype \<Rightarrow> nat" where
  "rank t_bool = 0"
| "rank t_char = 1"
| "rank t_schar = 1"
| "rank t_uchar = 1"
| "rank t_char8 = 1"
| "rank t_short = 2"
| "rank t_ushort = 2"
| "rank t_char16 = 2"
| "rank t_int = 3"
| "rank t_uint = 3"
| "rank t_char32 = 3"
| "rank t_wchar = 3"
| "rank t_long = 4"
| "rank t_ulong = 4"
| "rank t_llong = 5"
| "rank t_ullong = 5"

fun to_unsigned :: "itype \<Rightarrow> itype" where
  "to_unsigned t_int = t_uint"
| "to_unsigned t_long = t_ulong"
| "to_unsigned t_llong = t_ullong"
| "to_unsigned t = t"

definition common_itype :: "itype \<Rightarrow> itype \<Rightarrow> itype" where
  "common_itype a b =
     (let a = promote a; b = promote b
      in if a = b then a
         else if is_signed a = is_signed b then (if rank a < rank b then b else a)
         else let u = (if is_signed a then b else a); s = (if is_signed a then a else b)
              in if rank s \<le> rank u then u
                 else if imax u \<le> imax s then s
                 else to_unsigned s)"

fun common_type :: "ctype \<Rightarrow> ctype \<Rightarrow> ctype" where
  "common_type (Integral a) (Integral b) = Integral (common_itype a b)"
| "common_type (Floating f) (Integral b) = Floating f"
| "common_type (Integral a) (Floating g) = Floating g"
| "common_type (Floating f) (Floating g) = Floating (if fprec f < fprec g then g else f)"
| "common_type _ _ = NonArithmetic"

text \<open>Comparison of two values of one type.\<close>

fun val_less :: "cvalue \<Rightarrow> cvalue \<Rightarrow> bool" where
  "val_less (IV s a) (IV t b) = (a < b)"
| "val_less (FV f x) (FV g y) = fless x y"
| "val_less _ _ = False"

fun val_less_eq :: "cvalue \<Rightarrow> cvalue \<Rightarrow> bool" where
  "val_less_eq (IV s a) (IV t b) = (a \<le> b)"
| "val_less_eq (FV f x) (FV g y) = fless_eq x y"
| "val_less_eq _ _ = False"

text \<open>The built-in \<^verbatim>\<open>a <= b\<close> and \<^verbatim>\<open>a >= b\<close> on operands of any two arithmetic types.\<close>

definition op_less_eq :: "cvalue \<Rightarrow> cvalue \<Rightarrow> bool" where
  "op_less_eq a b =
     (let c = common_type (type_of a) (type_of b)
      in case (convert c a, convert c b) of
           (Inr x, Inr y) \<Rightarrow> val_less_eq x y
         | _ \<Rightarrow> False)"

definition op_greater_eq :: "cvalue \<Rightarrow> cvalue \<Rightarrow> bool" where
  "op_greater_eq a b = op_less_eq b a"

section \<open>The library facilities the source relies on\<close>

text \<open>
  \<^verbatim>\<open>std::numeric_limits<T>::max()\<close> and \<^verbatim>\<open>lowest()\<close> are values of type \<open>T\<close>; for a type that
  is not arithmetic there is no number to speak of.
\<close>

fun numeric_limits_max :: "ctype \<Rightarrow> cvalue option" where
  "numeric_limits_max (Integral t) = Some (IV t (imax t))"
| "numeric_limits_max (Floating f) = Some (FV f (Finite (fmax f)))"
| "numeric_limits_max NonArithmetic = None"

fun numeric_limits_lowest :: "ctype \<Rightarrow> cvalue option" where
  "numeric_limits_lowest (Integral t) = Some (IV t (imin t))"
| "numeric_limits_lowest (Floating f) = Some (FV f (Finite (- fmax f)))"
| "numeric_limits_lowest NonArithmetic = None"

fun integral :: "ctype \<Rightarrow> bool" where
  "integral (Integral t) = True"
| "integral _ = False"

fun floating_point :: "ctype \<Rightarrow> bool" where
  "floating_point (Floating f) = True"
| "floating_point _ = False"

definition is_arithmetic_v :: "ctype \<Rightarrow> bool" where
  "is_arithmetic_v T \<longleftrightarrow> integral T \<or> floating_point T"

text \<open>
  \<^verbatim>\<open>std::clamp(v, lo, hi)\<close> takes three values of one type and compares them with \<^verbatim>\<open><\<close>.
  Its precondition is that \<open>hi\<close> is not less than \<open>lo\<close>; otherwise the behaviour is
  undefined (implementations return different bounds then).
\<close>

definition std_clamp :: "cvalue \<Rightarrow> cvalue \<Rightarrow> cvalue \<Rightarrow> error + cvalue" where
  "std_clamp v lo hi =
     (if val_less hi lo then Inl UndefinedBehaviour
      else Inr (if val_less v lo then lo else if val_less hi v then hi else v))"

section \<open>The source\<close>

text \<open>
  \<^verbatim>\<open>concept CanContainBounds = std::is_arithmetic_v<T> && std::numeric_limits<T>::max() >= Max
  && std::numeric_limits<T>::lowest() <= Min && Min <= Max\<close>.  The three comparisons are
  the built-in ones.  \<open>MinV\<close> and \<open>MaxV\<close> stand for the template arguments \<^verbatim>\<open>Min\<close> and \<^verbatim>\<open>Max\<close>.
\<close>

definition CanContainBounds :: "ctype \<Rightarrow> cvalue \<Rightarrow> cvalue \<Rightarrow> bool" where
  "CanContainBounds T MinV MaxV \<longleftrightarrow>
     is_arithmetic_v T \<and>
     (case (numeric_limits_max T, numeric_limits_lowest T) of
        (Some mx, Some lw) \<Rightarrow> op_greater_eq mx MaxV \<and> op_less_eq lw MinV \<and> op_less_eq MinV MaxV
      | _ \<Rightarrow> False)"

definition SameNumericType :: "ctype \<Rightarrow> ctype \<Rightarrow> bool" where
  "SameNumericType T U \<longleftrightarrow>
     (integral T \<and> integral U) \<or> (floating_point T \<and> floating_point U)"

text \<open>The object: one field of the storage type.\<close>

record bounded_number =
  m_value :: cvalue

text \<open>The constraint of the member template \<^verbatim>\<open>set\<close>, on the type \<open>U\<close> of its argument.\<close>

definition set_requires :: "ctype \<Rightarrow> ctype \<Rightarrow> bool" where
  "set_requires T U \<longleftrightarrow> SameNumericType T U \<or> (floating_point T \<and> integral U)"

text \<open>The body of \<^verbatim>\<open>set\<close>: the value it assigns to \<^verbatim>\<open>m_value\<close>, for an argument \<open>v\<close> of type \<open>U\<close>.\<close>

definition set_body :: "ctype \<Rightarrow> cvalue \<Rightarrow> cvalue \<Rightarrow> cvalue \<Rightarrow> error + cvalue" where
  "set_body T MinV MaxV v =
     (let U = type_of v
      in if CanContainBounds U MinV MaxV then
           bind (convert U MinV) (\<lambda>lo.
           bind (convert U MaxV) (\<lambda>hi.
           bind (std_clamp v lo hi) (\<lambda>c.
           convert T c)))
         else
           bind (convert T v) (\<lambda>x.
           bind (convert T MinV) (\<lambda>lo.
           bind (convert T MaxV) (\<lambda>hi.
           std_clamp x lo hi))))"

text \<open>
  \<^verbatim>\<open>b.set(v)\<close> on an object of \<^verbatim>\<open>BoundedNumber<T, Min, Max>\<close>.  The class template requires
  \<^verbatim>\<open>CanContainBounds<T, Min, Max>\<close> and the member its own constraint; a program that breaks
  either is ill-formed.
\<close>

definition set_value ::
  "ctype \<Rightarrow> cvalue \<Rightarrow> cvalue \<Rightarrow> bounded_number \<Rightarrow> cvalue \<Rightarrow> error + bounded_number" where
  "set_value T MinV MaxV b v =
     (if \<not> CanContainBounds T MinV MaxV then Inl IllFormed
      else if \<not> set_requires T (type_of v) then Inl IllFormed
      else bind (set_body T MinV MaxV v) (\<lambda>s. Inr (b\<lparr>m_value := s\<rparr>)))"

text \<open>
  The constructor \<^verbatim>\<open>BoundedNumber(auto v) { set(v); }\<close>: \<^verbatim>\<open>set\<close> on the new object, whose only
  field \<^verbatim>\<open>set\<close> writes and never reads.
\<close>

definition BoundedNumber :: "ctype \<Rightarrow> cvalue \<Rightarrow> cvalue \<Rightarrow> cvalue \<Rightarrow> error + bounded_number" where
  "BoundedNumber T MinV MaxV v =
     (if \<not> CanContainBounds T MinV MaxV then Inl IllFormed
      else if \<not> set_requires T (type_of v) then Inl IllFormed
      else bind (set_body T MinV MaxV v) (\<lambda>s. Inr \<lparr>m_value = s\<rparr>))"

definition value_of :: "bounded_number \<Rightarrow> cvalue" where
  "value_of b = m_value b"

text \<open>
  \<^verbatim>\<open>using dB = BoundedNumber<double, -100, 0>\<close> and \<^verbatim>\<open>using dBn = BoundedNumber<int, 0, 1000>\<close>:
  the bounds are \<^verbatim>\<open>int\<close> constants in both.
\<close>

definition dB :: "cvalue \<Rightarrow> error + bounded_number" where
  "dB v = BoundedNumber (Floating t_double) (IV t_int (- 100)) (IV t_int 0) v"

definition dBn :: "cvalue \<Rightarrow> error + bounded_number" where
  "dBn v = BoundedNumber (Integral t_int) (IV t_int 0) (IV t_int 1000) v"

text \<open>\<^verbatim>\<open>consteval dBn operator""_dbn(unsigned long long value) { return dBn(value); }\<close>\<close>

definition operator_dbn :: "int \<Rightarrow> error + bounded_number" where
  "operator_dbn n = dBn (IV t_ullong n)"

text \<open>
  A literal with the suffix \<^verbatim>\<open>_dbn\<close>.  An integer literal calls the operator with its value
  as \<^verbatim>\<open>unsigned long long\<close> (it is ill-formed if the value does not fit).  For a literal
  with a fractional part or an exponent the language looks for a literal operator taking
  \<^verbatim>\<open>long double\<close> or a raw one; the source declares neither.
\<close>

datatype literal = IntegerLiteral nat | FloatingLiteral rat

fun literal_dbn :: "literal \<Rightarrow> error + bounded_number" where
  "literal_dbn (IntegerLiteral n) =
     (if int n \<le> imax t_ullong then operator_dbn (int n) else Inl IllFormed)"
| "literal_dbn (FloatingLiteral q) = Inl IllFormed"

section \<open>Notions of the specification\<close>

text \<open>
  A proper value of its type: an integer within the range of the integral type, a
  floating-point value that the format holds exactly.
\<close>

fun valid_value :: "cvalue \<Rightarrow> bool" where
  "valid_value (IV t n) = (imin t \<le> n \<and> n \<le> imax t)"
| "valid_value (FV f (Finite q)) = (fround f q = q \<and> \<bar>q\<bar> \<le> fmax f)"
| "valid_value (FV f x) = True"

text \<open>The number a value denotes, whatever its type.\<close>

fun exact :: "cvalue \<Rightarrow> fval" where
  "exact (IV t n) = Finite (of_int n)"
| "exact (FV f x) = x"

text \<open>
  The representability predicate in the words of the specification: \<open>T\<close> is arithmetic, its
  greatest value is at least \<open>Max\<close>, its least value at most \<open>Min\<close>, and \<open>Min \<le> Max\<close>, all
  three read as comparisons of the numbers themselves.
\<close>

definition CanRepresentBounds :: "ctype \<Rightarrow> cvalue \<Rightarrow> cvalue \<Rightarrow> bool" where
  "CanRepresentBounds T MinV MaxV \<longleftrightarrow>
     is_arithmetic_v T \<and>
     (case (numeric_limits_max T, numeric_limits_lowest T) of
        (Some mx, Some lw) \<Rightarrow>
          fless_eq (exact MaxV) (exact mx) \<and> fless_eq (exact lw) (exact MinV) \<and>
          fless_eq (exact MinV) (exact MaxV)
      | _ \<Rightarrow> False)"

text \<open>The numeric category of a type: integral, floating-point, or none.\<close>

datatype category = IntegralCategory | FloatingCategory

fun numeric_category :: "ctype \<Rightarrow> category option" where
  "numeric_category (Integral t) = Some IntegralCategory"
| "numeric_category (Floating f) = Some FloatingCategory"
| "numeric_category NonArithmetic = None"

text \<open>
  The input types the specification accepts: those of the category of the storage type,
  and the integral ones when the storage type is floating-point.
\<close>

definition accepted_input :: "ctype \<Rightarrow> ctype \<Rightarrow> bool" where
  "accepted_input T U \<longleftrightarrow>
     (numeric_category T \<noteq> None \<and> numeric_category U = numeric_category T) \<or>
     (numeric_category T = Some FloatingCategory \<and> numeric_category U = Some IntegralCategory)"

text \<open>
  The invariant of the data model, \<open>Min \<le> value \<le> Max\<close> evaluated in the representation of
  the storage type: both bounds are converted to \<open>T\<close> and compared there.
\<close>

definition in_bounds :: "ctype \<Rightarrow> cvalue \<Rightarrow> cvalue \<Rightarrow> cvalue \<Rightarrow> bool" where
  "in_bounds T MinV MaxV s =
     (case (convert T MinV, convert T MaxV) of
        (Inr lo, Inr hi) \<Rightarrow> val_less_eq lo s \<and> val_less_eq s hi
      | _ \<Rightarrow> False)"

text \<open>
  Representability in the sense of the glossary of the specification: the type holds the
  constant exactly, that is, converting the constant to the type is defined and does not
  change the number.
\<close>

definition holds_exactly :: "ctype \<Rightarrow> cvalue \<Rightarrow> bool" where
  "holds_exactly D c = (case convert D c of Inr x \<Rightarrow> exact x = exact c | Inl e \<Rightarrow> False)"

text \<open>
  Clamping in the sense of the glossary: a value outside \<open>[lo, hi]\<close> is replaced by the nearest
  bound, a value inside is left unchanged.  It is total.
\<close>

definition saturate :: "cvalue \<Rightarrow> cvalue \<Rightarrow> cvalue \<Rightarrow> cvalue" where
  "saturate lo hi x = (if val_less x lo then lo else if val_less hi x then hi else x)"

text \<open>
  The assignment algorithm in the words of the specification: if the type \<open>U\<close> of the input
  can represent \<open>Min\<close> and \<open>Max\<close> (the representability predicate applied to \<open>U\<close>), the input is
  clamped to \<open>[Min, Max]\<close> expressed as values of \<open>U\<close> and the result converted to the storage
  type; otherwise the input is converted to the storage type and clamped there, with \<open>Min\<close>
  and \<open>Max\<close> expressed as values of the storage type.
\<close>

definition assign_spec :: "ctype \<Rightarrow> cvalue \<Rightarrow> cvalue \<Rightarrow> cvalue \<Rightarrow> error + cvalue" where
  "assign_spec T MinV MaxV v =
     (let U = type_of v
      in if CanRepresentBounds U MinV MaxV then
           bind (convert U MinV) (\<lambda>lo.
           bind (convert U MaxV) (\<lambda>hi.
           convert T (saturate lo hi v)))
         else
           bind (convert T v) (\<lambda>x.
           bind (convert T MinV) (\<lambda>lo.
           bind (convert T MaxV) (\<lambda>hi.
           Inr (saturate lo hi x)))))"

text \<open>
  The two assumptions that the source makes in \<^verbatim>\<open>set\<close>.  In the first branch: a type that
  passes \<open>CanContainBounds\<close> can contain the bounds.  In the second branch, in the words of
  its comment: \<^verbatim>\<open>T can represent v\<close>.
\<close>

definition bounds_check_sound :: "ctype \<Rightarrow> cvalue \<Rightarrow> cvalue \<Rightarrow> bool" where
  "bounds_check_sound U MinV MaxV \<longleftrightarrow>
     (CanContainBounds U MinV MaxV \<longrightarrow> holds_exactly U MinV \<and> holds_exactly U MaxV)"

definition storage_holds_input :: "ctype \<Rightarrow> cvalue \<Rightarrow> cvalue \<Rightarrow> cvalue \<Rightarrow> bool" where
  "storage_holds_input T MinV MaxV v \<longleftrightarrow>
     (\<not> CanContainBounds (type_of v) MinV MaxV \<longrightarrow> holds_exactly T v)"

text \<open>The input, converted to the storage type, satisfies \<open>Min \<le> v \<le> Max\<close> there.\<close>

definition converted_in_bounds :: "ctype \<Rightarrow> cvalue \<Rightarrow> cvalue \<Rightarrow> cvalue \<Rightarrow> bool" where
  "converted_in_bounds T MinV MaxV v =
     (case convert T v of Inr x \<Rightarrow> in_bounds T MinV MaxV x | Inl e \<Rightarrow> False)"

section \<open>Basic facts about the model\<close>

lemma bind_Inl: "bind (Inl e) f = Inl e"
  by (simp add: bind_def)

lemma bind_Inr: "bind (Inr x) f = f x"
  by (simp add: bind_def)

lemma fless_eq_not_fless: "fless_eq a b \<Longrightarrow> \<not> fless b a"
  by (cases a; cases b) auto

lemma fless_eq_trans_not_fless: "fless_eq a b \<Longrightarrow> fless_eq b c \<Longrightarrow> \<not> fless c a"
  by (cases a; cases b; cases c) auto

lemma fless_eq_not_fless_eq: "fless_eq a b \<Longrightarrow> \<not> fless a b \<Longrightarrow> a = b"
  by (cases a; cases b) auto

lemma val_less_eq_not_less: "val_less_eq a b \<Longrightarrow> \<not> val_less b a"
  by (cases a; cases b) (auto dest: fless_eq_not_fless)

lemma val_less_eq_trans_not_less: "val_less_eq a b \<Longrightarrow> val_less_eq b c \<Longrightarrow> \<not> val_less c a"
  by (cases a; cases b; cases c) (auto dest: fless_eq_trans_not_fless)

lemma val_less_eq_not_less_eq:
  "val_less_eq a b \<Longrightarrow> \<not> val_less a b \<Longrightarrow> type_of a = type_of b \<Longrightarrow> a = b"
  by (cases a; cases b) (auto dest: fless_eq_not_fless_eq)

subsection \<open>Conversions\<close>

lemma wrap_id: "imin t \<le> n \<Longrightarrow> n \<le> imax t \<Longrightarrow> wrap t n = n"
  by (cases t) (simp_all add: wrap_def imin_def imax_def)

text \<open>Converting a value to its own type changes nothing.\<close>

lemma convert_same_type:
  assumes "valid_value v" and "type_of v = T"
  shows "convert T v = Inr v"
proof (cases v)
  case (IV t n)
  with assms have r: "imin t \<le> n" "n \<le> imax t" and T: "T = Integral t"
    by auto
  show ?thesis
  proof (cases "t = t_bool")
    case True
    with r have "n = 0 \<or> n = 1"
      by (auto simp: imin_def imax_def)
    with True IV T show ?thesis by auto
  next
    case False
    with IV T r show ?thesis by (simp add: wrap_id)
  qed
next
  case (FV f x)
  with assms show ?thesis by auto
qed

lemma convert_type: "convert D v = Inr x \<Longrightarrow> type_of x = D"
  by (cases D; cases v) (auto simp: to_floating_def Let_def split: if_splits fval.splits)

lemma numeric_limits_max_type: "numeric_limits_max U = Some mx \<Longrightarrow> type_of mx = U"
  by (cases U) auto

lemma numeric_limits_lowest_type: "numeric_limits_lowest U = Some lw \<Longrightarrow> type_of lw = U"
  by (cases U) auto

lemma to_floating_not_IllFormed: "to_floating g q \<noteq> Inl IllFormed"
  by (simp add: to_floating_def Let_def)

lemma convert_not_IllFormed: "is_arithmetic_v T \<Longrightarrow> convert T v \<noteq> Inl IllFormed"
  by (cases T; cases v)
     (auto simp: is_arithmetic_v_def to_floating_not_IllFormed split: fval.splits)

lemma type_of_arithmetic: "is_arithmetic_v (type_of v)"
  by (cases v) (simp_all add: is_arithmetic_v_def)

text \<open>
  Two values of one type are compared as the numbers they are: the promotion of both
  operands changes neither.  This is why \<open>std_clamp\<close>, whose three arguments have one type,
  compares with \<open>val_less\<close>.
\<close>

lemma promote_range: "imin (promote t) \<le> imin t \<and> imax t \<le> imax (promote t)"
  by (cases t) (simp_all add: imin_def imax_def)

lemma promote_not_bool: "promote t \<noteq> t_bool"
  by (cases t) simp_all

lemma op_less_eq_same_type:
  assumes "valid_value a" and "valid_value b" and "type_of a = type_of b"
  shows "op_less_eq a b = val_less_eq a b"
proof (cases a)
  case a: (IV s m)
  with assms(3) obtain n where b: "b = IV s n"
    by (cases b) auto
  have c: "common_itype s s = promote s"
    by (simp add: common_itype_def)
  have "wrap (promote s) m = m" "wrap (promote s) n = n"
    using assms(1,2) promote_range [of s] unfolding a b
    by (auto intro!: wrap_id)
  then show ?thesis
    by (simp add: a b op_less_eq_def c promote_not_bool)
next
  case a: (FV f x)
  with assms(3) obtain y where b: "b = FV f y"
    by (cases b) auto
  show ?thesis
    by (simp add: a b op_less_eq_def)
qed

lemma imin_le_imax: "imin t \<le> imax t"
  by (cases t) (simp_all add: imin_def imax_def)

lemma op_less_eq_integral:
  assumes "imin t \<le> m" "m \<le> imax t" "imin t \<le> n" "n \<le> imax t"
  shows "op_less_eq (IV t m) (IV t n) \<longleftrightarrow> m \<le> n"
  using assms op_less_eq_same_type [of "IV t m" "IV t n"] by simp

lemma op_less_eq_floating: "op_less_eq (FV f x) (FV f y) \<longleftrightarrow> fless_eq x y"
  by (simp add: op_less_eq_def)

subsection \<open>Floating-point formats\<close>

lemmas fround_eval = fround_def ilog2_def Let_def round_half_even_def pow2_def compute_bitlen

lemma pow2_ge_1: "0 \<le> k \<Longrightarrow> 1 \<le> pow2 k"
  by (simp add: pow2_def)

lemma fmax_lower: "2 ^ fprec f - 1 \<le> fmax f"
proof -
  have k: "0 \<le> femax f - int (fprec f) + 1"
    by (cases f) simp_all
  have "(2 ^ fprec f - 1) * 1 \<le> (2 ^ fprec f - 1) * pow2 (femax f - int (fprec f) + 1)"
    by (rule mult_left_mono) (simp_all add: pow2_ge_1 [OF k])
  then show ?thesis
    by (simp add: fmax_def)
qed

lemma fmax_ge_small: "q \<le> 16777215 \<Longrightarrow> q \<le> fmax f"
proof -
  assume q: "q \<le> 16777215"
  have "(16777215 :: rat) \<le> 2 ^ fprec f - 1"
    by (cases f) simp_all
  with q fmax_lower [of f] show ?thesis
    by linarith
qed

lemma fmax_pos: "0 < fmax f"
  using fmax_ge_small [of 1 f] by simp

lemma fmax_float: "fmax t_float = 340282346638528859811704183484516925440"
  by (simp add: fmax_def pow2_def)

lemma fround_zero: "fround f 0 = 0"
  by (simp add: fround_def)

lemma fround_small: "fround g (- 100) = - 100" "fround g (- 10) = - 10"
  by (cases g; simp add: fround_eval)+

text \<open>
  \<^verbatim>\<open>INT_MAX\<close> is not a \<^verbatim>\<open>float\<close>: the nearest one is \<open>2^31\<close>.
\<close>

lemma fround_float_examples:
  "fround t_float 2147483647 = 2147483648"
  "fround t_float (- 2147483648) = - 2147483648"
  "fround t_float 2147483648 = 2147483648"
  by (simp_all add: fround_eval)

lemma to_floating_exact:
  assumes "fround g q = q" and "\<bar>q\<bar> \<le> 16777215"
  shows "to_floating g q = Inr (FV g (Finite q))"
  using assms fmax_ge_small [of "\<bar>q\<bar>" g] by (simp add: to_floating_def)

lemma to_floating_small:
  "to_floating g 0 = Inr (FV g (Finite 0))"
  "to_floating g (- 100) = Inr (FV g (Finite (- 100)))"
  "to_floating g (- 10) = Inr (FV g (Finite (- 10)))"
  by (simp_all add: to_floating_exact fround_small fround_zero)

lemma to_floating_float_examples:
  "to_floating t_float 2147483647 = Inr (FV t_float (Finite 2147483648))"
  "to_floating t_float (- 2147483648) = Inr (FV t_float (Finite (- 2147483648)))"
  by (simp_all add: to_floating_def fround_float_examples fmax_float)

subsection \<open>Clamping\<close>

lemma std_clamp_not_IllFormed: "std_clamp v lo hi \<noteq> Inl IllFormed"
  by (simp add: std_clamp_def)

lemma std_clamp_within:
  assumes "val_less_eq lo v" and "val_less_eq v hi"
  shows "std_clamp v lo hi = Inr v"
  using assms
  by (simp add: std_clamp_def val_less_eq_not_less val_less_eq_trans_not_less)

lemma std_clamp_above:
  assumes "val_less_eq lo hi" and "val_less_eq hi v" and "type_of hi = type_of v"
  shows "std_clamp v lo hi = Inr hi"
proof -
  have "\<not> val_less hi lo"
    using assms(1) by (rule val_less_eq_not_less)
  moreover have "\<not> val_less v lo"
    using assms(1,2) by (rule val_less_eq_trans_not_less)
  moreover have "\<not> val_less hi v \<Longrightarrow> v = hi"
    using assms(2,3) by (auto dest: val_less_eq_not_less_eq)
  ultimately show ?thesis
    by (auto simp: std_clamp_def)
qed

lemma std_clamp_below:
  assumes "val_less_eq lo hi" and "val_less_eq v lo" and "type_of v = type_of lo"
  shows "std_clamp v lo hi = Inr lo"
proof -
  have "\<not> val_less hi lo"
    using assms(1) by (rule val_less_eq_not_less)
  moreover have "\<not> val_less v lo \<Longrightarrow> v = lo"
    using assms(2,3) by (auto dest: val_less_eq_not_less_eq)
  ultimately show ?thesis
    by (auto simp: std_clamp_def)
qed

lemma in_bounds_cases:
  assumes "in_bounds D MinV MaxV x"
  obtains lo hi where "convert D MinV = Inr lo" "convert D MaxV = Inr hi"
    "val_less_eq lo x" "val_less_eq x hi"
  using assms by (auto simp: in_bounds_def split: sum.splits)

lemma std_clamp_saturate: "\<not> val_less hi lo \<Longrightarrow> std_clamp v lo hi = Inr (saturate lo hi v)"
  by (simp add: std_clamp_def saturate_def)

subsection \<open>Values that a type holds exactly\<close>

lemma val_less_eq_exact:
  "type_of a = type_of b \<Longrightarrow> val_less_eq a b = fless_eq (exact a) (exact b)"
  by (cases a; cases b) simp_all

lemma same_type_exact_eq: "type_of a = type_of b \<Longrightarrow> exact a = exact b \<Longrightarrow> a = b"
  by (cases a; cases b) simp_all

lemma holds_exactlyE:
  assumes "holds_exactly D c"
  obtains x where "convert D c = Inr x" "exact x = exact c" "type_of x = D"
  using assms by (auto simp: holds_exactly_def convert_type split: sum.splits)

text \<open>
  What a value converts to depends on the number only: a type that holds a constant exactly
  gives the same result for every accepted representation of that number.
\<close>

lemma convert_transfer:
  assumes "holds_exactly T a" and "valid_value a" and "exact b = exact a"
    and "set_requires T (type_of b)"
  shows "convert T b = convert T a"
proof (cases T)
  case T: (Integral t)
  with assms(4) obtain s m where b: "b = IV s m"
    by (cases b) (auto simp: set_requires_def SameNumericType_def)
  show ?thesis
  proof (cases a)
    case (IV s' n)
    with assms(3) b show ?thesis
      by (simp add: T)
  next
    case a: (FV f x)
    from assms(3) a b have x: "x = Finite (of_int m)"
      by simp
    show ?thesis
    proof (cases "t = t_bool")
      case True
      with assms(1) a T x have "m = 0 \<or> m = 1"
        by (auto simp: holds_exactly_def split: if_splits)
      with True show ?thesis
        by (auto simp: T a b x)
    next
      case False
      have tr: "truncate_toward_zero (of_int m) = m"
        by (simp add: truncate_toward_zero_def)
      from assms(1) a T x False have "imin t \<le> m \<and> m \<le> imax t"
        by (auto simp: holds_exactly_def tr split: if_splits)
      then show ?thesis
        using False by (simp add: T a b x tr wrap_id)
    qed
  qed
next
  case T: (Floating g)
  show ?thesis
  proof (cases a)
    case a: (IV s n)
    with assms(1) T have r: "to_floating g (of_int n) = Inr (FV g (Finite (of_int n)))"
      by (auto simp: holds_exactly_def to_floating_def Let_def split: if_splits)
    from assms(3) a have "exact b = Finite (of_int n)"
      by simp
    then show ?thesis
      by (cases b) (auto simp: T a r)
  next
    case a: (FV f x)
    show ?thesis
    proof (cases x)
      case (Finite q)
      have r: "to_floating g q = Inr (FV g (Finite q))"
      proof (cases "f = g")
        case True
        with assms(2) a Finite show ?thesis
          by (simp add: to_floating_def)
      next
        case False
        with assms(1) a T Finite show ?thesis
          by (auto simp: holds_exactly_def to_floating_def Let_def split: if_splits)
      qed
      from assms(3) a Finite have "exact b = Finite q"
        by simp
      then show ?thesis
        by (cases b) (auto simp: T a Finite r)
    next
      case PInf
      with assms(3) a have "exact b = PInf" by simp
      then show ?thesis
        by (cases b) (auto simp: T a PInf)
    next
      case NInf
      with assms(3) a have "exact b = NInf" by simp
      then show ?thesis
        by (cases b) (auto simp: T a NInf)
    next
      case NaN
      with assms(3) a have "exact b = NaN" by simp
      then show ?thesis
        by (cases b) (auto simp: T a NaN)
    qed
  qed
next
  case NonArithmetic
  then show ?thesis by simp
qed

subsection \<open>The body of \<^verbatim>\<open>set\<close>\<close>

lemma CanContainBounds_arithmetic: "CanContainBounds T MinV MaxV \<Longrightarrow> is_arithmetic_v T"
  by (simp add: CanContainBounds_def)

lemma set_body_clamp_first:
  assumes "CanContainBounds (type_of v) MinV MaxV"
    and "convert (type_of v) MinV = Inr lo" and "convert (type_of v) MaxV = Inr hi"
  shows "set_body T MinV MaxV v = bind (std_clamp v lo hi) (convert T)"
  using assms by (simp add: set_body_def bind_Inr)

lemma set_body_convert_first:
  assumes "\<not> CanContainBounds (type_of v) MinV MaxV"
    and "convert T v = Inr x" and "convert T MinV = Inr lo" and "convert T MaxV = Inr hi"
  shows "set_body T MinV MaxV v = std_clamp x lo hi"
  using assms by (simp add: set_body_def bind_Inr)

text \<open>
  Where the bounds check of the source and the representability predicate of the
  specification agree on the type of the input, a value that \<^verbatim>\<open>set\<close> stores is the value that
  the algorithm of the specification gives.
\<close>

lemma set_body_agrees_with_spec:
  assumes "CanContainBounds (type_of v) MinV MaxV \<longleftrightarrow> CanRepresentBounds (type_of v) MinV MaxV"
    and "set_body T MinV MaxV v = Inr s"
  shows "assign_spec T MinV MaxV v = Inr s"
  using assms
  by (auto simp: set_body_def assign_spec_def bind_def std_clamp_def saturate_def Let_def
      split: sum.splits if_splits)

text \<open>
  An input within the bounds by its own value and after conversion to the storage type is
  stored as converted, if the bounds check is sound for its type.
\<close>

lemma set_body_within:
  assumes "fless_eq (exact MinV) (exact v)" and "fless_eq (exact v) (exact MaxV)"
    and "converted_in_bounds T MinV MaxV v"
    and "bounds_check_sound (type_of v) MinV MaxV"
  shows "set_body T MinV MaxV v = convert T v"
proof (cases "CanContainBounds (type_of v) MinV MaxV")
  case True
  with assms(4) have "holds_exactly (type_of v) MinV" "holds_exactly (type_of v) MaxV"
    by (simp_all add: bounds_check_sound_def)
  then obtain lo hi where lo: "convert (type_of v) MinV = Inr lo" "exact lo = exact MinV"
      "type_of lo = type_of v"
    and hi: "convert (type_of v) MaxV = Inr hi" "exact hi = exact MaxV" "type_of hi = type_of v"
    by (elim holds_exactlyE) blast
  have "val_less_eq lo v" "val_less_eq v hi"
    using assms(1,2) lo hi by (simp_all add: val_less_eq_exact)
  then have "std_clamp v lo hi = Inr v"
    by (rule std_clamp_within)
  with True lo(1) hi(1) show ?thesis
    by (simp add: set_body_clamp_first bind_Inr)
next
  case False
  from assms(3) obtain x where x: "convert T v = Inr x" and "in_bounds T MinV MaxV x"
    by (auto simp: converted_in_bounds_def split: sum.splits)
  then obtain lo hi where b: "convert T MinV = Inr lo" "convert T MaxV = Inr hi"
      "val_less_eq lo x" "val_less_eq x hi"
    by (elim in_bounds_cases) blast
  then have "std_clamp x lo hi = Inr x"
    by (simp add: std_clamp_within)
  with False x b(1,2) show ?thesis
    by (simp add: set_body_convert_first)
qed

text \<open>
  The greatest value of the input type is stored as \<open>Max\<close>, and the least as \<open>Min\<close>, if the
  storage type holds both bounds exactly and the two assumptions of the source hold.
\<close>

lemma set_body_greatest:
  assumes "set_requires T U" and "valid_value MaxV"
    and "holds_exactly T MinV" and "holds_exactly T MaxV"
    and "fless_eq (exact MinV) (exact MaxV)"
    and "numeric_limits_max U = Some mx" and "fless_eq (exact MaxV) (exact mx)"
    and "bounds_check_sound U MinV MaxV" and "storage_holds_input T MinV MaxV mx"
  shows "set_body T MinV MaxV mx = convert T MaxV"
proof -
  have tmx: "type_of mx = U"
    using assms(6) by (rule numeric_limits_max_type)
  from assms(3,4) obtain tl th where tl: "convert T MinV = Inr tl" "exact tl = exact MinV"
      "type_of tl = T"
    and th: "convert T MaxV = Inr th" "exact th = exact MaxV" "type_of th = T"
    by (elim holds_exactlyE) blast
  show ?thesis
  proof (cases "CanContainBounds U MinV MaxV")
    case True
    with assms(8) have "holds_exactly U MinV" "holds_exactly U MaxV"
      by (simp_all add: bounds_check_sound_def)
    then obtain lo hi where lo: "convert U MinV = Inr lo" "exact lo = exact MinV" "type_of lo = U"
      and hi: "convert U MaxV = Inr hi" "exact hi = exact MaxV" "type_of hi = U"
      by (elim holds_exactlyE) blast
    have "val_less_eq lo hi" "val_less_eq hi mx"
      using assms(5,7) lo hi tmx by (simp_all add: val_less_eq_exact)
    then have "std_clamp mx lo hi = Inr hi"
      by (rule std_clamp_above) (simp add: hi tmx)
    moreover have "convert T hi = convert T MaxV"
      using assms(4,2) hi(2) assms(1) by (intro convert_transfer) (simp_all add: hi(3))
    ultimately show ?thesis
      using True lo(1) hi(1) by (simp add: set_body_clamp_first tmx bind_Inr)
  next
    case False
    with assms(9) have "holds_exactly T mx"
      by (simp add: storage_holds_input_def tmx)
    then obtain x where x: "convert T mx = Inr x" "exact x = exact mx" "type_of x = T"
      by (elim holds_exactlyE) blast
    have "val_less_eq tl th" "val_less_eq th x"
      using assms(5,7) tl th x by (simp_all add: val_less_eq_exact)
    then have "std_clamp x tl th = Inr th"
      by (rule std_clamp_above) (simp add: th x)
    with False x(1) tl(1) th(1) show ?thesis
      by (simp add: set_body_convert_first tmx)
  qed
qed

lemma set_body_least:
  assumes "set_requires T U" and "valid_value MinV"
    and "holds_exactly T MinV" and "holds_exactly T MaxV"
    and "fless_eq (exact MinV) (exact MaxV)"
    and "numeric_limits_lowest U = Some lw" and "fless_eq (exact lw) (exact MinV)"
    and "bounds_check_sound U MinV MaxV" and "storage_holds_input T MinV MaxV lw"
  shows "set_body T MinV MaxV lw = convert T MinV"
proof -
  have tlw: "type_of lw = U"
    using assms(6) by (rule numeric_limits_lowest_type)
  from assms(3,4) obtain tl th where tl: "convert T MinV = Inr tl" "exact tl = exact MinV"
      "type_of tl = T"
    and th: "convert T MaxV = Inr th" "exact th = exact MaxV" "type_of th = T"
    by (elim holds_exactlyE) blast
  show ?thesis
  proof (cases "CanContainBounds U MinV MaxV")
    case True
    with assms(8) have "holds_exactly U MinV" "holds_exactly U MaxV"
      by (simp_all add: bounds_check_sound_def)
    then obtain lo hi where lo: "convert U MinV = Inr lo" "exact lo = exact MinV" "type_of lo = U"
      and hi: "convert U MaxV = Inr hi" "exact hi = exact MaxV" "type_of hi = U"
      by (elim holds_exactlyE) blast
    have "val_less_eq lo hi" "val_less_eq lw lo"
      using assms(5,7) lo hi tlw by (simp_all add: val_less_eq_exact)
    then have "std_clamp lw lo hi = Inr lo"
      by (rule std_clamp_below) (simp add: lo tlw)
    moreover have "convert T lo = convert T MinV"
      using assms(3,2) lo(2) assms(1) by (intro convert_transfer) (simp_all add: lo(3))
    ultimately show ?thesis
      using True lo(1) hi(1) by (simp add: set_body_clamp_first tlw bind_Inr)
  next
    case False
    with assms(9) have "holds_exactly T lw"
      by (simp add: storage_holds_input_def tlw)
    then obtain x where x: "convert T lw = Inr x" "exact x = exact lw" "type_of x = T"
      by (elim holds_exactlyE) blast
    have "val_less_eq tl th" "val_less_eq x tl"
      using assms(5,7) tl th x by (simp_all add: val_less_eq_exact)
    then have "std_clamp x tl th = Inr tl"
      by (rule std_clamp_below) (simp add: tl x)
    with False x(1) tl(1) th(1) show ?thesis
      by (simp add: set_body_convert_first tlw)
  qed
qed

text \<open>
  Assigning a value of the storage type that is within the bounds stores that value.
\<close>

lemma set_body_of_value_within_bounds:
  assumes "CanContainBounds T MinV MaxV" and "type_of v = T" and "valid_value v"
    and "in_bounds T MinV MaxV v"
  shows "set_body T MinV MaxV v = Inr v"
proof -
  from assms(4) obtain lo hi where b: "convert T MinV = Inr lo" "convert T MaxV = Inr hi"
      "val_less_eq lo v" "val_less_eq v hi"
    by (rule in_bounds_cases)
  then have "std_clamp v lo hi = Inr v"
    by (simp add: std_clamp_within)
  moreover have "convert T v = Inr v"
    using assms(3,2) by (rule convert_same_type)
  ultimately show ?thesis
    using assms(1,2) b(1,2) by (simp add: set_body_clamp_first bind_Inr)
qed

lemma bind_not_IllFormed:
  assumes "m \<noteq> Inl IllFormed" and "\<And>x. f x \<noteq> Inl IllFormed"
  shows "bind m f \<noteq> Inl IllFormed"
proof (cases m)
  case (Inl e)
  with assms(1) show ?thesis by (simp add: bind_def)
next
  case (Inr x)
  with assms(2) show ?thesis by (simp add: bind_def)
qed

lemma bind_Inr_not_IllFormed:
  assumes "m \<noteq> Inl IllFormed"
  shows "bind m (\<lambda>s. Inr (g s)) \<noteq> Inl IllFormed"
  using assms by (cases m) (simp_all add: bind_def)

text \<open>Once the constraints are satisfied nothing in the body can be ill-formed.\<close>

lemma set_body_not_IllFormed:
  assumes "is_arithmetic_v T"
  shows "set_body T MinV MaxV v \<noteq> Inl IllFormed"
proof -
  have U: "is_arithmetic_v (type_of v)"
    by (rule type_of_arithmetic)
  have one: "bind (convert (type_of v) MinV) (\<lambda>lo. bind (convert (type_of v) MaxV)
      (\<lambda>hi. bind (std_clamp v lo hi) (convert T))) \<noteq> Inl IllFormed"
    by (intro bind_not_IllFormed convert_not_IllFormed std_clamp_not_IllFormed U assms)
  have two: "bind (convert T v) (\<lambda>x. bind (convert T MinV) (\<lambda>lo. bind (convert T MaxV)
      (\<lambda>hi. std_clamp x lo hi))) \<noteq> Inl IllFormed"
    by (intro bind_not_IllFormed convert_not_IllFormed std_clamp_not_IllFormed assms)
  from one two show ?thesis
    by (simp add: set_body_def Let_def)
qed

lemma set_requires_accepted: "set_requires T U \<longleftrightarrow> accepted_input T U"
  by (cases T; cases U) (simp_all add: set_requires_def SameNumericType_def accepted_input_def)

subsection \<open>The bounds check at the edges\<close>

text \<open>
  The comparisons of \<open>CanContainBounds\<close> are not strict: the limits of a type are bounds that
  the type passes, and so is an interval of one value.
\<close>

lemma CanContainBounds_own_limits:
  assumes "numeric_limits_max T = Some mx" and "numeric_limits_lowest T = Some lw"
  shows "CanContainBounds T lw mx \<and> CanContainBounds T mx mx \<and> CanContainBounds T lw lw"
proof (cases T)
  case (Integral t)
  with assms have "mx = IV t (imax t)" "lw = IV t (imin t)"
    by auto
  with Integral imin_le_imax [of t] show ?thesis
    by (simp add: CanContainBounds_def is_arithmetic_v_def op_greater_eq_def
        op_less_eq_integral)
next
  case (Floating f)
  with assms have "mx = FV f (Finite (fmax f))" "lw = FV f (Finite (- fmax f))"
    by auto
  with Floating fmax_pos [of f] show ?thesis
    by (simp add: CanContainBounds_def is_arithmetic_v_def op_greater_eq_def
        op_less_eq_floating)
next
  case NonArithmetic
  with assms show ?thesis
    by simp
qed

section \<open>The assertions of \<^verbatim>\<open>main\<close>\<close>

text \<open>
  The model gives every \<^verbatim>\<open>static_assert\<close> of \<^verbatim>\<open>main\<close> the value the source states, and
  rejects the three constructions that the source lists as compile-time errors.
\<close>

lemma main_integral_examples:
  "dBn (IV t_int 10) = Inr \<lparr>m_value = IV t_int 10\<rparr>"
  "dBn (IV t_ullong (imax t_ullong)) = Inr \<lparr>m_value = IV t_int 1000\<rparr>"
  "dBn (IV t_llong (imin t_llong)) = Inr \<lparr>m_value = IV t_int 0\<rparr>"
  "literal_dbn (IntegerLiteral 10) = Inr \<lparr>m_value = IV t_int 10\<rparr>"
  "dBn (IV t_int 1000) = Inr \<lparr>m_value = IV t_int 1000\<rparr>"
  "dBn (IV t_int 0) = Inr \<lparr>m_value = IV t_int 0\<rparr>"
  by code_simp+

lemma main_compile_time_errors:
  "dBn (FV t_double (Finite 10)) = Inl IllFormed"
  "BoundedNumber (Integral t_uchar) (IV t_int (- 128)) (IV t_int 127) (IV t_int 128) =
     Inl IllFormed"
  "literal_dbn (FloatingLiteral (103 / 10)) = Inl IllFormed"
  by code_simp+

lemma dB_bounds_integral: "op_less_eq (IV t_int (- 100)) (IV t_int 0)"
  by code_simp

lemma dB_bounds_floating: "CanContainBounds (Floating g) (IV t_int (- 100)) (IV t_int 0)"
proof -
  have "op_greater_eq (FV g (Finite (fmax g))) (IV t_int 0)"
    using fmax_pos [of g]
    by (simp add: op_greater_eq_def op_less_eq_def to_floating_small)
  moreover have "op_less_eq (FV g (Finite (- fmax g))) (IV t_int (- 100))"
    using fmax_ge_small [of 100 g]
    by (simp add: op_less_eq_def to_floating_small)
  ultimately show ?thesis
    using dB_bounds_integral by (simp add: CanContainBounds_def is_arithmetic_v_def)
qed

lemma dB_floating:
  "dB (FV g x) =
     bind (bind (std_clamp (FV g x) (FV g (Finite (- 100))) (FV g (Finite 0)))
       (convert (Floating t_double))) (\<lambda>s. Inr \<lparr>m_value = s\<rparr>)"
  using dB_bounds_floating [of g] dB_bounds_floating [of t_double]
  by (simp add: dB_def BoundedNumber_def set_requires_def SameNumericType_def set_body_def
      to_floating_small bind_Inr)

lemma main_floating_examples:
  "dB (FV t_double (Finite (- 21 / 2))) = Inr \<lparr>m_value = FV t_double (Finite (- 21 / 2))\<rparr>"
  "dB (FV t_ldouble (Finite (fmax t_ldouble))) = Inr \<lparr>m_value = FV t_double (Finite 0)\<rparr>"
  "dB (FV t_ldouble (Finite (- fmax t_ldouble))) =
     Inr \<lparr>m_value = FV t_double (Finite (- 100))\<rparr>"
  "dB (FV t_double (Finite 0)) = Inr \<lparr>m_value = FV t_double (Finite 0)\<rparr>"
  "dB (FV t_double (Finite (- 100))) = Inr \<lparr>m_value = FV t_double (Finite (- 100))\<rparr>"
  using fmax_pos [of t_ldouble] fmax_ge_small [of 100 t_ldouble]
  by (simp_all add: dB_floating std_clamp_def bind_Inr to_floating_small)

lemma main_floating_from_integer:
  "dB (IV t_int (- 10)) = Inr \<lparr>m_value = FV t_double (Finite (- 10))\<rparr>"
proof -
  have u: "CanContainBounds (type_of (IV t_int (- 10))) (IV t_int (- 100)) (IV t_int 0)"
    by code_simp
  have lo: "convert (type_of (IV t_int (- 10))) (IV t_int (- 100)) = Inr (IV t_int (- 100))"
    by code_simp
  have hi: "convert (type_of (IV t_int (- 10))) (IV t_int 0) = Inr (IV t_int 0)"
    by code_simp
  have c: "std_clamp (IV t_int (- 10)) (IV t_int (- 100)) (IV t_int 0) = Inr (IV t_int (- 10))"
    by code_simp
  have "set_body (Floating t_double) (IV t_int (- 100)) (IV t_int 0) (IV t_int (- 10)) =
      Inr (FV t_double (Finite (- 10)))"
    by (simp add: set_body_clamp_first [OF u lo hi] c bind_Inr to_floating_small)
  then show ?thesis
    using dB_bounds_floating [of t_double]
    by (simp add: dB_def BoundedNumber_def set_requires_def SameNumericType_def bind_Inr)
qed

text \<open>
  In the branch of \<^verbatim>\<open>set\<close> that converts first the source notes \<^verbatim>\<open>// T can represent v\<close>.
  It cannot always: \<^verbatim>\<open>unsigned short\<close> fails the bounds check of \<open>[-100, 100]\<close> because it has
  no negative values, so 65535 is first narrowed to \<^verbatim>\<open>signed char\<close>, which gives \<open>-1\<close>, and
  \<open>-1\<close> is within the bounds.
\<close>

lemma narrowing_before_clamping_wraps:
  "\<not> CanContainBounds (Integral t_ushort) (IV t_int (- 100)) (IV t_int 100)"
  "BoundedNumber (Integral t_schar) (IV t_int (- 100)) (IV t_int 100) (IV t_ushort 65535) =
     Inr \<lparr>m_value = IV t_schar (- 1)\<rparr>"
  by code_simp+

text \<open>
  Where the bounds check of the input type goes wrong (\<^verbatim>\<open>unsigned int\<close> passes it for the
  bounds \<open>-1\<close> and \<open>10\<close>) the bounds converted to that type can be out of order, and
  \<^verbatim>\<open>std::clamp\<close> is called outside its precondition; and an instantiation is accepted whose
  storage type has no \<open>Min\<close>.
\<close>

lemma clamp_precondition_broken:
  "CanContainBounds (Integral t_uint) (IV t_int (- 1)) (IV t_int 10)"
  "BoundedNumber (Integral t_llong) (IV t_int (- 1)) (IV t_int 10) (IV t_uint 5) =
     Inl UndefinedBehaviour"
  "BoundedNumber (Integral t_uint) (IV t_int (- 1)) (IV t_int 10) (IV t_int (- 5)) =
     Inr \<lparr>m_value = IV t_uint 4294967295\<rparr>"
  "\<not> in_bounds (Integral t_uint) (IV t_int (- 1)) (IV t_int 10) (IV t_uint 4294967295)"
  by code_simp+

text \<open>
  The same happens with the alias of the source: \<^verbatim>\<open>dB(0u)\<close>, an input equal to \<open>Max\<close>, is clamped
  in \<^verbatim>\<open>unsigned int\<close> between \<open>-100\<close> converted, which is 4294967196, and 0.
\<close>

lemma dB_of_unsigned_zero:
  "dB (IV t_uint 0) = Inl UndefinedBehaviour"
proof -
  have u: "CanContainBounds (type_of (IV t_uint 0)) (IV t_int (- 100)) (IV t_int 0)"
    by code_simp
  have lo: "convert (type_of (IV t_uint 0)) (IV t_int (- 100)) = Inr (IV t_uint 4294967196)"
    by code_simp
  have hi: "convert (type_of (IV t_uint 0)) (IV t_int 0) = Inr (IV t_uint 0)"
    by code_simp
  have c: "std_clamp (IV t_uint 0) (IV t_uint 4294967196) (IV t_uint 0) = Inl UndefinedBehaviour"
    by code_simp
  have "set_body (Floating t_double) (IV t_int (- 100)) (IV t_int 0) (IV t_uint 0) =
      Inl UndefinedBehaviour"
    by (simp add: set_body_clamp_first [OF u lo hi] c bind_Inl)
  then show ?thesis
    using dB_bounds_floating [of t_double]
    by (simp add: dB_def BoundedNumber_def set_requires_def SameNumericType_def bind_Inl)
qed

text \<open>
  The bounds check also fails types that hold the bounds: \<^verbatim>\<open>int\<close> fails it for the
  \<^verbatim>\<open>unsigned int\<close> bounds \<^verbatim>\<open>0u\<close> and \<^verbatim>\<open>10u\<close>, because its least value is converted to
  \<^verbatim>\<open>unsigned int\<close>.  Then \<^verbatim>\<open>set\<close> converts first, and a storage type that holds the input
  gives the right result.
\<close>

lemma extremes_when_converting_first:
  "CanContainBounds (Integral t_llong) (IV t_uint 0) (IV t_uint 10)"
  "\<not> CanContainBounds (Integral t_int) (IV t_uint 0) (IV t_uint 10)"
  "CanRepresentBounds (Integral t_int) (IV t_uint 0) (IV t_uint 10)"
  "storage_holds_input (Integral t_llong) (IV t_uint 0) (IV t_uint 10) (IV t_int 2147483647)"
  "BoundedNumber (Integral t_llong) (IV t_uint 0) (IV t_uint 10) (IV t_int 2147483647) =
     Inr \<lparr>m_value = IV t_llong 10\<rparr>"
  "BoundedNumber (Integral t_llong) (IV t_uint 0) (IV t_uint 10) (IV t_int (- 2147483648)) =
     Inr \<lparr>m_value = IV t_llong 0\<rparr>"
  by code_simp+

lemma dBn_bounds_integral: "CanContainBounds (Integral t_int) (IV t_int 0) (IV t_int 1000)"
  by code_simp

lemma dBn_bounds_ullong: "CanContainBounds (Integral t_ullong) (IV t_int 0) (IV t_int 1000)"
  by code_simp

text \<open>\<^verbatim>\<open>dBn\<close> from any \<^verbatim>\<open>unsigned long long\<close>: values above 1000 become 1000.\<close>

lemma dBn_from_ullong:
  assumes "0 \<le> n"
  shows "dBn (IV t_ullong n) = Inr \<lparr>m_value = IV t_int (min n 1000)\<rparr>"
proof -
  have req: "set_requires (Integral t_int) (type_of (IV t_ullong n))"
    by (simp add: set_requires_def SameNumericType_def)
  have lo: "convert (Integral t_ullong) (IV t_int 0) = Inr (IV t_ullong 0)"
    by code_simp
  have hi: "convert (Integral t_ullong) (IV t_int 1000) = Inr (IV t_ullong 1000)"
    by code_simp
  have cl: "std_clamp (IV t_ullong n) (IV t_ullong 0) (IV t_ullong 1000) =
      Inr (IV t_ullong (min n 1000))"
    using assms by (simp add: std_clamp_def min_def)
  have "imin t_int \<le> min n 1000" and "min n 1000 \<le> imax t_int"
    using assms by (simp_all add: imin_def imax_def)
  then have narrow: "convert (Integral t_int) (IV t_ullong (min n 1000)) =
      Inr (IV t_int (min n 1000))"
    by (simp add: wrap_id)
  have "set_body (Integral t_int) (IV t_int 0) (IV t_int 1000) (IV t_ullong n) =
      Inr (IV t_int (min n 1000))"
    using dBn_bounds_ullong
    by (simp add: set_body_def lo hi cl narrow bind_Inr del: convert.simps)
  with dBn_bounds_integral req show ?thesis
    by (simp add: dBn_def BoundedNumber_def bind_Inr)
qed

section \<open>The claims\<close>

text \<open>
  C1 (clamp totality, the invariant of the data model): for every instantiation that
  satisfies the representability predicate and every accepted input, the stored value \<open>s\<close>
  satisfies \<open>Min \<le> s \<le> Max\<close> in the representation of the storage type.

  The source does not keep this.  \<^verbatim>\<open>BoundedNumber<long long, -10, -1>\<close> is a valid
  instantiation, for the predicate of the source and for the one of the specification, and
  \<^verbatim>\<open>unsigned int\<close> is an accepted input type.  \<^verbatim>\<open>CanContainBounds<unsigned int, -10, -1>\<close>
  holds, because the comparisons convert \<open>-10\<close> and \<open>-1\<close> to \<^verbatim>\<open>unsigned int\<close>; so the input
  5 is clamped to \<open>[4294967286, 4294967295]\<close> and the result 4294967286 is stored in the
  \<^verbatim>\<open>long long\<close> as it is.
\<close>

theorem bounds_invariant_violated:
  "CanContainBounds (Integral t_llong) (IV t_int (- 10)) (IV t_int (- 1)) \<and>
   CanRepresentBounds (Integral t_llong) (IV t_int (- 10)) (IV t_int (- 1)) \<and>
   set_requires (Integral t_llong) (Integral t_uint) \<and>
   CanContainBounds (Integral t_uint) (IV t_int (- 10)) (IV t_int (- 1)) \<and>
   BoundedNumber (Integral t_llong) (IV t_int (- 10)) (IV t_int (- 1)) (IV t_uint 5) =
     Inr \<lparr>m_value = IV t_llong 4294967286\<rparr> \<and>
   \<not> in_bounds (Integral t_llong) (IV t_int (- 10)) (IV t_int (- 1)) (IV t_llong 4294967286)"
  by code_simp

text \<open>
  C2 (order of the assignment algorithm): if the type \<open>U\<close> of the input satisfies the
  representability predicate for \<open>Min\<close> and \<open>Max\<close>, the input is clamped to \<open>[Min, Max]\<close>
  expressed as values of \<open>U\<close> and the result is converted to the storage type; otherwise the
  input is converted to the storage type and clamped there.

  The source chooses the branch by \<open>CanContainBounds\<close>, which passes types that cannot
  represent the bounds.  \<^verbatim>\<open>unsigned int\<close> cannot represent \<open>-10\<close> and \<open>-1\<close>, so for
  \<^verbatim>\<open>BoundedNumber<long long, -10, -1>\<close> and the input \<^verbatim>\<open>5u\<close> the stated order is to convert 5 to
  \<^verbatim>\<open>long long\<close> and clamp it there, which gives \<open>-1\<close>.  The source clamps first, in
  \<^verbatim>\<open>unsigned int\<close>, and stores 4294967286.
\<close>

theorem set_departs_from_precedence:
  "CanContainBounds (Integral t_llong) (IV t_int (- 10)) (IV t_int (- 1)) \<and>
   set_requires (Integral t_llong) (type_of (IV t_uint 5)) \<and>
   \<not> CanRepresentBounds (type_of (IV t_uint 5)) (IV t_int (- 10)) (IV t_int (- 1)) \<and>
   CanContainBounds (type_of (IV t_uint 5)) (IV t_int (- 10)) (IV t_int (- 1)) \<and>
   assign_spec (Integral t_llong) (IV t_int (- 10)) (IV t_int (- 1)) (IV t_uint 5) =
     Inr (IV t_llong (- 1)) \<and>
   set_body (Integral t_llong) (IV t_int (- 10)) (IV t_int (- 1)) (IV t_uint 5) =
     Inr (IV t_llong 4294967286) \<and>
   BoundedNumber (Integral t_llong) (IV t_int (- 10)) (IV t_int (- 1)) (IV t_uint 5) =
     Inr \<lparr>m_value = IV t_llong 4294967286\<rparr>"
  by code_simp

text \<open>
  C3 (saturation at extremes): for every accepted input type \<open>U\<close> wider than the storage
  type, assigning the greatest value of \<open>U\<close> stores exactly \<open>Max\<close> and assigning the least
  value of \<open>U\<close> stores exactly \<open>Min\<close>.

  As stated this fails: \<^verbatim>\<open>unsigned short\<close> is wider than \<^verbatim>\<open>signed char\<close>, its least value is 0,
  and \<^verbatim>\<open>BoundedNumber<signed char, -100, 100>\<close> stores 0, which is within the bounds and is
  not \<open>Min\<close>.
\<close>

theorem saturation_at_extremes_counterexample:
  "CanContainBounds (Integral t_schar) (IV t_int (- 100)) (IV t_int 100) \<and>
   set_requires (Integral t_schar) (Integral t_ushort) \<and>
   bits t_schar < bits t_ushort \<and>
   numeric_limits_lowest (Integral t_ushort) = Some (IV t_ushort 0) \<and>
   convert (Integral t_schar) (IV t_int (- 100)) = Inr (IV t_schar (- 100)) \<and>
   BoundedNumber (Integral t_schar) (IV t_int (- 100)) (IV t_int 100) (IV t_ushort 0) =
     Inr \<lparr>m_value = IV t_schar 0\<rparr>"
  by code_simp

text \<open>
  C3 as amended: for every accepted input type \<open>U\<close>, assigning the greatest value of \<open>U\<close>
  stores exactly \<open>Max\<close> if that value is at least \<open>Max\<close> (as it is for every type wider than
  the storage type), and assigning the least value of \<open>U\<close> stores exactly \<open>Min\<close> if that value
  is at most \<open>Min\<close>.  This is for an instantiation with \<open>Min \<le> Max\<close> whose storage type holds
  both bounds exactly, and under the two assumptions that the source itself makes: a type
  \<open>U\<close> that passes its bounds check holds both bounds exactly, and where \<open>U\<close> does not pass,
  the storage type holds the assigned value exactly.
\<close>

theorem extremes_saturate:
  assumes "CanContainBounds T MinV MaxV" and "set_requires T U"
    and "valid_value MinV" and "valid_value MaxV"
    and "holds_exactly T MinV" and "holds_exactly T MaxV"
    and "fless_eq (exact MinV) (exact MaxV)"
    and "numeric_limits_max U = Some mx" and "numeric_limits_lowest U = Some lw"
    and "bounds_check_sound U MinV MaxV"
  shows "(fless_eq (exact MaxV) (exact mx) \<and> storage_holds_input T MinV MaxV mx \<longrightarrow>
           (\<exists>s. type_of s = T \<and> exact s = exact MaxV \<and>
                BoundedNumber T MinV MaxV mx = Inr \<lparr>m_value = s\<rparr> \<and>
                set_value T MinV MaxV b mx = Inr (b\<lparr>m_value := s\<rparr>))) \<and>
         (fless_eq (exact lw) (exact MinV) \<and> storage_holds_input T MinV MaxV lw \<longrightarrow>
           (\<exists>s. type_of s = T \<and> exact s = exact MinV \<and>
                BoundedNumber T MinV MaxV lw = Inr \<lparr>m_value = s\<rparr> \<and>
                set_value T MinV MaxV b lw = Inr (b\<lparr>m_value := s\<rparr>)))"
proof -
  have tmx: "type_of mx = U" and tlw: "type_of lw = U"
    using assms(8,9) by (simp_all add: numeric_limits_max_type numeric_limits_lowest_type)
  from assms(5,6) obtain tl th where tl: "convert T MinV = Inr tl" "exact tl = exact MinV"
      "type_of tl = T"
    and th: "convert T MaxV = Inr th" "exact th = exact MaxV" "type_of th = T"
    by (elim holds_exactlyE) blast
  have top: "set_body T MinV MaxV mx = Inr th"
    if "fless_eq (exact MaxV) (exact mx)" "storage_holds_input T MinV MaxV mx"
    using set_body_greatest [OF assms(2,4,5,6,7,8) that(1) assms(10) that(2)] th(1) by simp
  have bot: "set_body T MinV MaxV lw = Inr tl"
    if "fless_eq (exact lw) (exact MinV)" "storage_holds_input T MinV MaxV lw"
    using set_body_least [OF assms(2,3,5,6,7,9) that(1) assms(10) that(2)] tl(1) by simp
  have "\<exists>s. type_of s = T \<and> exact s = exact MaxV \<and>
      BoundedNumber T MinV MaxV mx = Inr \<lparr>m_value = s\<rparr> \<and>
      set_value T MinV MaxV b mx = Inr (b\<lparr>m_value := s\<rparr>)"
    if "fless_eq (exact MaxV) (exact mx)" "storage_holds_input T MinV MaxV mx"
    using assms(1,2) top [OF that] th(2,3)
    by (intro exI [of _ th]) (simp add: BoundedNumber_def set_value_def tmx bind_Inr)
  moreover have "\<exists>s. type_of s = T \<and> exact s = exact MinV \<and>
      BoundedNumber T MinV MaxV lw = Inr \<lparr>m_value = s\<rparr> \<and>
      set_value T MinV MaxV b lw = Inr (b\<lparr>m_value := s\<rparr>)"
    if "fless_eq (exact lw) (exact MinV)" "storage_holds_input T MinV MaxV lw"
    using assms(1,2) bot [OF that] tl(2,3)
    by (intro exI [of _ tl]) (simp add: BoundedNumber_def set_value_def tlw bind_Inr)
  ultimately show ?thesis
    by blast
qed

theorem extremes_saturate_witness:
  "CanContainBounds (Integral t_int) (IV t_int 0) (IV t_int 1000) \<and>
   set_requires (Integral t_int) (Integral t_llong) \<and>
   valid_value (IV t_int 0) \<and> valid_value (IV t_int 1000) \<and>
   holds_exactly (Integral t_int) (IV t_int 0) \<and>
   holds_exactly (Integral t_int) (IV t_int 1000) \<and>
   fless_eq (exact (IV t_int 0)) (exact (IV t_int 1000)) \<and>
   numeric_limits_max (Integral t_llong) = Some (IV t_llong 9223372036854775807) \<and>
   numeric_limits_lowest (Integral t_llong) = Some (IV t_llong (- 9223372036854775808)) \<and>
   bounds_check_sound (Integral t_llong) (IV t_int 0) (IV t_int 1000) \<and>
   fless_eq (exact (IV t_int 1000)) (exact (IV t_llong 9223372036854775807)) \<and>
   storage_holds_input (Integral t_int) (IV t_int 0) (IV t_int 1000)
     (IV t_llong 9223372036854775807) \<and>
   fless_eq (exact (IV t_llong (- 9223372036854775808))) (exact (IV t_int 0)) \<and>
   storage_holds_input (Integral t_int) (IV t_int 0) (IV t_int 1000)
     (IV t_llong (- 9223372036854775808)) \<and>
   BoundedNumber (Integral t_int) (IV t_int 0) (IV t_int 1000) (IV t_llong 9223372036854775807) =
     Inr \<lparr>m_value = IV t_int 1000\<rparr> \<and>
   BoundedNumber (Integral t_int) (IV t_int 0) (IV t_int 1000)
     (IV t_llong (- 9223372036854775808)) = Inr \<lparr>m_value = IV t_int 0\<rparr>"
proof -
  have h1: "CanContainBounds (Integral t_int) (IV t_int 0) (IV t_int 1000)"
    by code_simp
  have h2: "set_requires (Integral t_int) (Integral t_llong)"
    by code_simp
  have h3: "valid_value (IV t_int 0)" and h4: "valid_value (IV t_int 1000)"
    by code_simp+
  have h5: "holds_exactly (Integral t_int) (IV t_int 0)"
    and h6: "holds_exactly (Integral t_int) (IV t_int 1000)"
    by code_simp+
  have h7: "fless_eq (exact (IV t_int 0)) (exact (IV t_int 1000))"
    by simp
  have h8: "numeric_limits_max (Integral t_llong) = Some (IV t_llong 9223372036854775807)"
    by code_simp
  have h9: "numeric_limits_lowest (Integral t_llong) =
      Some (IV t_llong (- 9223372036854775808))"
    by code_simp
  have h10: "bounds_check_sound (Integral t_llong) (IV t_int 0) (IV t_int 1000)"
    by code_simp
  have a1: "fless_eq (exact (IV t_int 1000)) (exact (IV t_llong 9223372036854775807))"
    by simp
  have a2: "storage_holds_input (Integral t_int) (IV t_int 0) (IV t_int 1000)
      (IV t_llong 9223372036854775807)"
    by code_simp
  have a3: "fless_eq (exact (IV t_llong (- 9223372036854775808))) (exact (IV t_int 0))"
    by simp
  have a4: "storage_holds_input (Integral t_int) (IV t_int 0) (IV t_int 1000)
      (IV t_llong (- 9223372036854775808))"
    by code_simp
  note sat = extremes_saturate [OF h1 h2 h3 h4 h5 h6 h7 h8 h9 h10]
  from sat a1 a2 obtain s where s: "type_of s = Integral t_int"
      "exact s = exact (IV t_int 1000)"
      "BoundedNumber (Integral t_int) (IV t_int 0) (IV t_int 1000)
         (IV t_llong 9223372036854775807) = Inr \<lparr>m_value = s\<rparr>"
    by blast
  from s(1,2) have "s = IV t_int 1000"
    by (intro same_type_exact_eq) simp_all
  with s(3) have top: "BoundedNumber (Integral t_int) (IV t_int 0) (IV t_int 1000)
      (IV t_llong 9223372036854775807) = Inr \<lparr>m_value = IV t_int 1000\<rparr>"
    by simp
  from sat a3 a4 obtain r where r: "type_of r = Integral t_int"
      "exact r = exact (IV t_int 0)"
      "BoundedNumber (Integral t_int) (IV t_int 0) (IV t_int 1000)
         (IV t_llong (- 9223372036854775808)) = Inr \<lparr>m_value = r\<rparr>"
    by blast
  from r(1,2) have "r = IV t_int 0"
    by (intro same_type_exact_eq) simp_all
  with r(3) have bot: "BoundedNumber (Integral t_int) (IV t_int 0) (IV t_int 1000)
      (IV t_llong (- 9223372036854775808)) = Inr \<lparr>m_value = IV t_int 0\<rparr>"
    by simp
  from h1 h2 h3 h4 h5 h6 h7 h8 h9 h10 a1 a2 a3 a4 top bot show ?thesis
    by blast
qed

text \<open>
  C4 (identity on values in range, exactness at the bounds): for every accepted input \<open>v\<close>
  that, after conversion to the storage type, satisfies \<open>Min \<le> v \<le> Max\<close>, the stored value
  is \<open>v\<close> converted to the storage type.

  As stated this fails, and by the design of \<^verbatim>\<open>set\<close>: the \<^verbatim>\<open>long long\<close> value \<open>2^32 + 5\<close>
  converted to \<^verbatim>\<open>int\<close> is 5, which lies in \<open>[0, 1000]\<close>, but \<^verbatim>\<open>long long\<close> passes the bounds check,
  the clamp is carried out before the conversion, and 1000 is stored.
\<close>

theorem identity_in_range_counterexample:
  "set_requires (Integral t_int) (Integral t_llong) \<and>
   convert (Integral t_int) (IV t_llong 4294967301) = Inr (IV t_int 5) \<and>
   in_bounds (Integral t_int) (IV t_int 0) (IV t_int 1000) (IV t_int 5) \<and>
   dBn (IV t_llong 4294967301) = Inr \<lparr>m_value = IV t_int 1000\<rparr> \<and>
   dBn (IV t_llong 4294967301) \<noteq> Inr \<lparr>m_value = IV t_int 5\<rparr>"
  by code_simp

text \<open>
  C4 as amended: for every accepted input \<open>v\<close> that satisfies \<open>Min \<le> v \<le> Max\<close> by its own value
  as well as after conversion to the storage type, the stored value is \<open>v\<close> converted to
  the storage type; in particular an input equal to \<open>Min\<close> or to \<open>Max\<close> stores that bound as
  the storage type holds it.  This is under the assumption that the source itself makes:
  a type \<open>U\<close> that passes its bounds check holds both bounds exactly.
\<close>

theorem stored_is_converted_input:
  assumes "CanContainBounds T MinV MaxV" and "set_requires T (type_of v)"
    and "fless_eq (exact MinV) (exact v)" and "fless_eq (exact v) (exact MaxV)"
    and "converted_in_bounds T MinV MaxV v"
    and "bounds_check_sound (type_of v) MinV MaxV"
  shows "\<exists>x. convert T v = Inr x \<and> in_bounds T MinV MaxV x \<and>
             BoundedNumber T MinV MaxV v = Inr \<lparr>m_value = x\<rparr> \<and>
             set_value T MinV MaxV b v = Inr (b\<lparr>m_value := x\<rparr>)"
proof -
  from assms(5) obtain x where x: "convert T v = Inr x" "in_bounds T MinV MaxV x"
    by (auto simp: converted_in_bounds_def split: sum.splits)
  have "set_body T MinV MaxV v = Inr x"
    using set_body_within [OF assms(3,4,5,6)] x(1) by simp
  with assms(1,2) x show ?thesis
    by (intro exI [of _ x]) (simp add: BoundedNumber_def set_value_def bind_Inr)
qed

theorem stored_is_converted_input_witness:
  "CanContainBounds (Integral t_int) (IV t_int 0) (IV t_int 1000) \<and>
   set_requires (Integral t_int) (type_of (IV t_llong 1000)) \<and>
   fless_eq (exact (IV t_int 0)) (exact (IV t_llong 1000)) \<and>
   fless_eq (exact (IV t_llong 1000)) (exact (IV t_int 1000)) \<and>
   converted_in_bounds (Integral t_int) (IV t_int 0) (IV t_int 1000) (IV t_llong 1000) \<and>
   bounds_check_sound (type_of (IV t_llong 1000)) (IV t_int 0) (IV t_int 1000) \<and>
   convert (Integral t_int) (IV t_llong 1000) = Inr (IV t_int 1000) \<and>
   BoundedNumber (Integral t_int) (IV t_int 0) (IV t_int 1000) (IV t_llong 1000) =
     Inr \<lparr>m_value = IV t_int 1000\<rparr> \<and>
   set_value (Integral t_int) (IV t_int 0) (IV t_int 1000) \<lparr>m_value = IV t_int 7\<rparr>
     (IV t_llong 1000) = Inr \<lparr>m_value = IV t_int 1000\<rparr>"
proof -
  have h1: "CanContainBounds (Integral t_int) (IV t_int 0) (IV t_int 1000)"
    by code_simp
  have h2: "set_requires (Integral t_int) (type_of (IV t_llong 1000))"
    by code_simp
  have h3: "fless_eq (exact (IV t_int 0)) (exact (IV t_llong 1000))"
    by simp
  have h4: "fless_eq (exact (IV t_llong 1000)) (exact (IV t_int 1000))"
    by simp
  have h5: "converted_in_bounds (Integral t_int) (IV t_int 0) (IV t_int 1000) (IV t_llong 1000)"
    by code_simp
  have h6: "bounds_check_sound (type_of (IV t_llong 1000)) (IV t_int 0) (IV t_int 1000)"
    by code_simp
  have c: "convert (Integral t_int) (IV t_llong 1000) = Inr (IV t_int 1000)"
    by code_simp
  from stored_is_converted_input [OF h1 h2 h3 h4 h5 h6, of "\<lparr>m_value = IV t_int 7\<rparr>"]
  obtain x where x: "convert (Integral t_int) (IV t_llong 1000) = Inr x"
      "BoundedNumber (Integral t_int) (IV t_int 0) (IV t_int 1000) (IV t_llong 1000) =
         Inr \<lparr>m_value = x\<rparr>"
      "set_value (Integral t_int) (IV t_int 0) (IV t_int 1000) \<lparr>m_value = IV t_int 7\<rparr>
         (IV t_llong 1000) = Inr (\<lparr>m_value = IV t_int 7\<rparr>\<lparr>m_value := x\<rparr>)"
    by blast
  from x(1) c have "x = IV t_int 1000"
    by simp
  with x(2,3) have "BoundedNumber (Integral t_int) (IV t_int 0) (IV t_int 1000)
      (IV t_llong 1000) = Inr \<lparr>m_value = IV t_int 1000\<rparr>"
    and "set_value (Integral t_int) (IV t_int 0) (IV t_int 1000) \<lparr>m_value = IV t_int 7\<rparr>
      (IV t_llong 1000) = Inr \<lparr>m_value = IV t_int 1000\<rparr>"
    by simp_all
  with h1 h2 h3 h4 h5 h6 c show ?thesis
    by blast
qed

text \<open>
  C5 (the gate on the input type): construction and assignment accept an input of type \<open>U\<close>
  exactly when \<open>U\<close> has the numeric category of the storage type, or \<open>U\<close> is integral and the
  storage type floating-point.  Every other combination, in particular a floating-point
  input for an integral storage type, is rejected at compile time: the result is
  \<open>IllFormed\<close> whatever the value, and an accepted input is never \<open>IllFormed\<close>.
\<close>

theorem input_type_gate:
  assumes "CanContainBounds T MinV MaxV"
  shows "(BoundedNumber T MinV MaxV v = Inl IllFormed \<longleftrightarrow> \<not> accepted_input T (type_of v)) \<and>
         (set_value T MinV MaxV b v = Inl IllFormed \<longleftrightarrow> \<not> accepted_input T (type_of v)) \<and>
         (integral T \<and> floating_point (type_of v) \<longrightarrow>
            BoundedNumber T MinV MaxV v = Inl IllFormed \<and>
            set_value T MinV MaxV b v = Inl IllFormed)"
proof -
  have body: "set_body T MinV MaxV v \<noteq> Inl IllFormed"
    using assms by (intro set_body_not_IllFormed CanContainBounds_arithmetic)
  have ctor: "BoundedNumber T MinV MaxV v = Inl IllFormed \<longleftrightarrow> \<not> accepted_input T (type_of v)"
    using assms bind_Inr_not_IllFormed [OF body, of "\<lambda>s. \<lparr>m_value = s\<rparr>"]
    by (simp add: BoundedNumber_def set_requires_accepted)
  have setv: "set_value T MinV MaxV b v = Inl IllFormed \<longleftrightarrow> \<not> accepted_input T (type_of v)"
    using assms bind_Inr_not_IllFormed [OF body, of "\<lambda>s. b\<lparr>m_value := s\<rparr>"]
    by (simp add: set_value_def set_requires_accepted)
  have mixed: "integral T \<and> floating_point (type_of v) \<longrightarrow> \<not> accepted_input T (type_of v)"
    by (cases T; cases "type_of v") (simp_all add: accepted_input_def)
  from ctor setv mixed show ?thesis
    by blast
qed

theorem input_type_gate_witness:
  "CanContainBounds (Integral t_int) (IV t_int 0) (IV t_int 1000) \<and>
   integral (Integral t_int) \<and> floating_point (type_of (FV t_double (Finite 10))) \<and>
   \<not> accepted_input (Integral t_int) (type_of (FV t_double (Finite 10))) \<and>
   BoundedNumber (Integral t_int) (IV t_int 0) (IV t_int 1000) (FV t_double (Finite 10)) =
     Inl IllFormed \<and>
   set_value (Integral t_int) (IV t_int 0) (IV t_int 1000) \<lparr>m_value = IV t_int 7\<rparr>
     (FV t_double (Finite 10)) = Inl IllFormed"
proof -
  have h: "CanContainBounds (Integral t_int) (IV t_int 0) (IV t_int 1000)"
    by code_simp
  have i: "integral (Integral t_int) \<and> floating_point (type_of (FV t_double (Finite 10)))"
    by simp
  from input_type_gate [OF h, of "FV t_double (Finite 10)" "\<lparr>m_value = IV t_int 7\<rparr>"] h i
  show ?thesis
    by blast
qed

text \<open>
  C6 (the representability predicate): \<open>CanContainBounds T Min Max\<close> is true if and only if \<open>T\<close>
  is arithmetic, the greatest value of \<open>T\<close> is at least \<open>Max\<close>, the least value of \<open>T\<close> is at
  most \<open>Min\<close>, and \<open>Min \<le> Max\<close>.

  The source states the purpose of the concept as \<^emph>\<open>T can contain Min and Max\<close>, but its
  comparisons are the built-in ones: in \<^verbatim>\<open>numeric_limits<unsigned int>::lowest() <= -1\<close> the
  \<open>-1\<close> is converted to \<^verbatim>\<open>unsigned int\<close>, which gives 4294967295, and the concept holds
  for \<^verbatim>\<open>unsigned int\<close> with the bounds \<open>-1\<close> and \<open>10\<close>, although the least value 0 is greater
  than \<open>-1\<close>.
\<close>

theorem CanContainBounds_accepts_negative_for_unsigned:
  "CanContainBounds (Integral t_uint) (IV t_int (- 1)) (IV t_int 10) \<and>
   numeric_limits_lowest (Integral t_uint) = Some (IV t_uint 0) \<and>
   \<not> CanRepresentBounds (Integral t_uint) (IV t_int (- 1)) (IV t_int 10)"
  by code_simp

text \<open>
  C7 (the category predicate): \<open>SameNumericType T U\<close> is true if and only if both types are
  integral or both are floating-point, that is, both have a numeric category and it is
  the same; a pair of an integral and a floating-point type never satisfies it.
\<close>

theorem SameNumericType_iff_same_category:
  "(SameNumericType T U \<longleftrightarrow>
      (integral T \<and> integral U) \<or> (floating_point T \<and> floating_point U)) \<and>
   (SameNumericType T U \<longleftrightarrow>
      numeric_category T \<noteq> None \<and> numeric_category U = numeric_category T) \<and>
   \<not> SameNumericType (Integral a) (Floating f) \<and>
   \<not> SameNumericType (Floating f) (Integral a)"
  by (cases T; cases U) (simp_all add: SameNumericType_def)

text \<open>
  C8 (the literal suffix): for every integer literal \<open>n\<close> that an \<^verbatim>\<open>unsigned long long\<close> holds,
  \<^verbatim>\<open>n_dbn\<close> is the value of \<^verbatim>\<open>dBn\<close> constructed from \<open>n\<close>: it always succeeds, and stores \<open>n\<close>
  clamped to \<open>[0, 1000]\<close>.  A literal with a fractional part does not compile.
\<close>

theorem literal_dbn_constructs:
  assumes "n \<le> 18446744073709551615"
  shows "literal_dbn (IntegerLiteral n) = dBn (IV t_ullong (int n)) \<and>
         literal_dbn (IntegerLiteral n) = Inr \<lparr>m_value = IV t_int (min (int n) 1000)\<rparr> \<and>
         literal_dbn (FloatingLiteral q) = Inl IllFormed"
proof -
  have "int n \<le> imax t_ullong"
    using assms by (simp add: imax_def)
  then have "literal_dbn (IntegerLiteral n) = dBn (IV t_ullong (int n))"
    by (simp add: operator_dbn_def)
  then show ?thesis
    by (simp add: dBn_from_ullong)
qed

theorem literal_dbn_constructs_witness:
  "(2000 :: nat) \<le> 18446744073709551615 \<and>
   literal_dbn (IntegerLiteral 2000) = dBn (IV t_ullong 2000) \<and>
   literal_dbn (IntegerLiteral 2000) = Inr \<lparr>m_value = IV t_int 1000\<rparr> \<and>
   literal_dbn (FloatingLiteral (103 / 10)) = Inl IllFormed"
proof -
  have h: "(2000 :: nat) \<le> 18446744073709551615"
    by simp
  have c: "literal_dbn (IntegerLiteral 2000) = dBn (IV t_ullong (int 2000)) \<and>
      literal_dbn (IntegerLiteral 2000) =
        Inr \<lparr>m_value = IV t_int (min (int 2000) 1000)\<rparr> \<and>
      literal_dbn (FloatingLiteral (103 / 10)) = Inl IllFormed"
    by (rule literal_dbn_constructs [OF h])
  have e: "int 2000 = 2000" "min (2000 :: int) 1000 = 1000"
    by simp_all
  from c h show ?thesis
    unfolding e by blast
qed

text \<open>
  C9 (bounds of another numeric category): when \<open>Min\<close> and \<open>Max\<close> are of a different numeric
  category than \<open>T\<close>, the comparisons of the predicate against the extreme values of \<open>T\<close> lose
  nothing, so that no triple gets a wrong verdict.

  The source compares with the built-in operators.  With \<^verbatim>\<open>float\<close> bounds the extreme values
  of \<^verbatim>\<open>int\<close> are converted to \<^verbatim>\<open>float\<close>: \<^verbatim>\<open>INT_MAX\<close> is rounded to \<open>2^31\<close>, and the predicate holds
  for \<^verbatim>\<open>int\<close> with the bounds \<^verbatim>\<open>0.0f\<close> and \<^verbatim>\<open>2147483648.0f\<close>, although the greatest \<^verbatim>\<open>int\<close> is
  less than \<open>Max\<close>.
\<close>

theorem CanContainBounds_rounds_integral_limits:
  "valid_value (FV t_float (Finite 0)) \<and> valid_value (FV t_float (Finite 2147483648)) \<and>
   numeric_limits_max (Integral t_int) = Some (IV t_int 2147483647) \<and>
   CanContainBounds (Integral t_int) (FV t_float (Finite 0)) (FV t_float (Finite 2147483648)) \<and>
   \<not> CanRepresentBounds (Integral t_int) (FV t_float (Finite 0))
       (FV t_float (Finite 2147483648))"
proof -
  have v: "valid_value (FV t_float (Finite 0))" "valid_value (FV t_float (Finite 2147483648))"
    by (simp_all add: fround_float_examples fmax_float fround_zero)
  have m: "numeric_limits_max (Integral t_int) = Some (IV t_int 2147483647)"
    by (simp add: imax_def)
  have ge: "op_greater_eq (IV t_int (imax t_int)) (FV t_float (Finite 2147483648))"
    by (simp add: op_greater_eq_def op_less_eq_def imax_def to_floating_float_examples)
  have le: "op_less_eq (IV t_int (imin t_int)) (FV t_float (Finite 0))"
    by (simp add: op_less_eq_def imin_def to_floating_float_examples)
  have mm: "op_less_eq (FV t_float (Finite 0)) (FV t_float (Finite 2147483648))"
    by (simp add: op_less_eq_def)
  have code: "CanContainBounds (Integral t_int) (FV t_float (Finite 0))
      (FV t_float (Finite 2147483648))"
    using ge le mm by (simp add: CanContainBounds_def is_arithmetic_v_def)
  have spec: "\<not> CanRepresentBounds (Integral t_int) (FV t_float (Finite 0))
      (FV t_float (Finite 2147483648))"
    by (simp add: CanRepresentBounds_def is_arithmetic_v_def imax_def)
  from v m code spec show ?thesis
    by simp
qed

text \<open>
  C10 (assigning the current value): for every live object of any instantiation, \<^verbatim>\<open>set\<close>
  with the current value of the object leaves the stored value unchanged, and constructing
  a new object from that value gives an object with the same value.

  This holds for an object whose value is within the bounds
  (\<open>set_body_of_value_within_bounds\<close>), but the source creates objects whose value is not:
  \<^verbatim>\<open>BoundedNumber<long long, -10, -1>(5u)\<close> holds 4294967286, and \<^verbatim>\<open>set\<close> with that value, which
  now has the storage type and is clamped properly, changes it to \<open>-1\<close>.
\<close>

theorem set_current_value_changes_it:
  "BoundedNumber (Integral t_llong) (IV t_int (- 10)) (IV t_int (- 1)) (IV t_uint 5) =
     Inr \<lparr>m_value = IV t_llong 4294967286\<rparr> \<and>
   value_of \<lparr>m_value = IV t_llong 4294967286\<rparr> = IV t_llong 4294967286 \<and>
   set_value (Integral t_llong) (IV t_int (- 10)) (IV t_int (- 1))
     \<lparr>m_value = IV t_llong 4294967286\<rparr> (value_of \<lparr>m_value = IV t_llong 4294967286\<rparr>) =
     Inr \<lparr>m_value = IV t_llong (- 1)\<rparr> \<and>
   BoundedNumber (Integral t_llong) (IV t_int (- 10)) (IV t_int (- 1))
     (value_of \<lparr>m_value = IV t_llong 4294967286\<rparr>) = Inr \<lparr>m_value = IV t_llong (- 1)\<rparr>"
  by code_simp

end
